theory Spec2Isabelle
  imports Main "HOL-Library.Sublist"
begin

section \<open>JNI++ (include/jnipp.hpp): compile-time descriptor synthesis\<close>

subsection \<open>Character packs and their joins\<close>

text \<open>
  \<^verbatim>\<open>template<char... values> struct pack\<close> carries a sequence of characters in its
  template arguments. A pack is modelled by that sequence. The static member
  \<^verbatim>\<open>str\<close> is the array \<^verbatim>\<open>{ values..., '\0' }\<close>.
\<close>

type_synonym pack = "char list"

definition str :: "pack \<Rightarrow> char list" where
  "str vals = vals @ [CHR 0x00]"

text \<open>
  \<^verbatim>\<open>_pack_join<pack<left...>, pack<right...>>::type = pack<left..., right...>\<close>.
\<close>

definition pack_join :: "pack \<Rightarrow> pack \<Rightarrow> pack" where
  "pack_join left right = left @ right"

text \<open>
  \<^verbatim>\<open>_pack_join_all<Left, Right>\<close> joins the two packs;
  \<^verbatim>\<open>_pack_join_all<Left, Right, Next, Rest...>\<close> continues with
  \<^verbatim>\<open>_pack_join_all<pack_join<Left, Right>, Next, Rest...>\<close>. The primary
  template takes two packs at least.
\<close>

fun pack_join_all :: "pack \<Rightarrow> pack \<Rightarrow> pack list \<Rightarrow> pack" where
  "pack_join_all left right [] = pack_join left right"
| "pack_join_all left right (nxt # rest) = pack_join_all (pack_join left right) nxt rest"

text \<open>
  An instantiation \<^verbatim>\<open>pack_join_all<T...>\<close> whose arguments are written
  \<^verbatim>\<open>typename X::name\<close>: an argument that does not exist (\<open>None\<close>) makes the whole
  instantiation ill-formed, and so do fewer than two arguments.
\<close>

definition pack_join_all_inst :: "pack option list \<Rightarrow> pack option" where
  "pack_join_all_inst ts =
     (case those ts of
        Some (left # right # rest) \<Rightarrow> Some (pack_join_all left right rest)
      | _ \<Rightarrow> None)"

text \<open>
  The bracketings of a join of several packs, for the statement that every bracketing
  gives the same sequence: a leaf is a pack, a node is one use of \<^verbatim>\<open>pack_join\<close>.
\<close>

datatype bracketing = Leaf pack | Join bracketing bracketing

fun join_of :: "bracketing \<Rightarrow> pack" where
  "join_of (Leaf p) = p"
| "join_of (Join a b) = pack_join (join_of a) (join_of b)"

fun packs_of :: "bracketing \<Rightarrow> pack list" where
  "packs_of (Leaf p) = [p]"
| "packs_of (Join a b) = packs_of a @ packs_of b"

subsection \<open>The types of the runtime interface\<close>

text \<open>
  The types the mangler is specialised for. \<^verbatim>\<open>jboolean\<close> ... \<^verbatim>\<open>jdouble\<close> are the
  primitive types declared by \<^verbatim>\<open>jni.h\<close> (kept abstract here), \<open>JVoid\<close> is
  \<^verbatim>\<open>void\<close>, \<open>Defined n\<close> is \<^verbatim>\<open>defined<L>\<close> for a name provider \<^verbatim>\<open>L\<close> with
  \<^verbatim>\<open>L::name = pack<n...>\<close>, \<open>Pointer t\<close> is \<^verbatim>\<open>t*\<close> and \<open>JFun r args\<close> is the function
  type \<^verbatim>\<open>r(args...)\<close>.
\<close>

datatype jtype =
    JVoid
  | JBoolean
  | JByte
  | JChar
  | JShort
  | JInt
  | JLong
  | JFloat
  | JDouble
  | Defined pack
  | Pointer jtype
  | JFun jtype "jtype list"

text \<open>
  \<^verbatim>\<open>mangler<Type>::name\<close>. The primary template has no member \<^verbatim>\<open>name\<close>, so a type
  without a specialisation (\<^verbatim>\<open>void\<close>) has no descriptor: \<open>None\<close>.
\<close>

fun mangler :: "jtype \<Rightarrow> pack option" where
  "mangler JBoolean = Some [CHR ''Z'']"
| "mangler JByte = Some [CHR ''B'']"
| "mangler JChar = Some [CHR ''C'']"
| "mangler JShort = Some [CHR ''S'']"
| "mangler JInt = Some [CHR ''I'']"
| "mangler JLong = Some [CHR ''L'']"
| "mangler JFloat = Some [CHR ''F'']"
| "mangler JDouble = Some [CHR ''D'']"
| "mangler (Defined n) = pack_join_all_inst [Some [CHR ''L''], Some n, Some [CHR '';'']]"
| "mangler (Pointer t) =
     (case mangler t of None \<Rightarrow> None | Some n \<Rightarrow> Some (pack_join [CHR ''[''] n))"
| "mangler (JFun r args) =
     pack_join_all_inst ([Some [CHR ''('']] @ map mangler args @ [Some [CHR '')''], mangler r])"
| "mangler JVoid = None"

abbreviation mangle :: "jtype \<Rightarrow> pack option" where
  "mangle t \<equiv> mangler t"

definition jstring_define_name :: pack where
  "jstring_define_name = ''java/lang/String''"

definition jstring :: jtype where
  "jstring = Defined jstring_define_name"

section \<open>The type resolver\<close>

text \<open>
  The native types \<^verbatim>\<open>resolver\<close> is asked about: \<^verbatim>\<open>void\<close>, \<^verbatim>\<open>bool\<close>, \<^verbatim>\<open>char\<close>
  (the 8-bit signed scalar), \<^verbatim>\<open>unsigned char\<close>, \<^verbatim>\<open>std::int16_t\<close>, \<^verbatim>\<open>std::int32_t\<close>,
  \<^verbatim>\<open>std::int64_t\<close>, \<^verbatim>\<open>float\<close>, \<^verbatim>\<open>double\<close>, and function types over them.
\<close>

datatype ntype =
    NVoid
  | NBool
  | NChar
  | NUnsignedChar
  | NInt16
  | NInt32
  | NInt64
  | NFloat
  | NDouble
  | NFun ntype "ntype list"

text \<open>
  \<^verbatim>\<open>resolver<Type>::type\<close>. The primary template \<^verbatim>\<open>struct resolver {}\<close> has no member
  \<^verbatim>\<open>type\<close>: a type without a specialisation resolves to nothing (\<open>None\<close>), and a
  function type resolves when its return type and all its argument types do.
\<close>

fun resolver :: "ntype \<Rightarrow> jtype option" where
  "resolver NVoid = Some JVoid"
| "resolver NBool = Some JBoolean"
| "resolver NChar = Some JByte"
| "resolver NUnsignedChar = Some JChar"
| "resolver NInt16 = Some JShort"
| "resolver NInt32 = Some JInt"
| "resolver NInt64 = Some JLong"
| "resolver (NFun r args) =
     (case resolver r of
        None \<Rightarrow> None
      | Some jr \<Rightarrow>
          (case those (map resolver args) of
             None \<Rightarrow> None
           | Some jargs \<Rightarrow> Some (JFun jr jargs)))"
| "resolver NFloat = None"
| "resolver NDouble = None"

text \<open>
  The member \<^verbatim>\<open>return_type\<close> of \<^verbatim>\<open>struct resolver<Return(Args...)>\<close>: the return
  type as written, not resolved. No other specialisation declares it.
\<close>

fun resolver_return_type :: "ntype \<Rightarrow> ntype option" where
  "resolver_return_type (NFun r args) = Some r"
| "resolver_return_type _ = None"

text \<open>\<^verbatim>\<open>template <typename Type> using type = typename resolver<Type>::type\<close>.\<close>

abbreviation jnipp_type :: "ntype \<Rightarrow> jtype option" where
  "jnipp_type t \<equiv> resolver t"

section \<open>Manual-lifetime storage\<close>

text \<open>
  \<^verbatim>\<open>storage<Type>\<close> has an aligned buffer \<^verbatim>\<open>buf\<close>, read through \<^verbatim>\<open>raw()\<close> as a
  \<^verbatim>\<open>Type\<close> whatever it holds, and the occupancy flag \<^verbatim>\<open>flag\<close>. The buffer is a member
  of the cell, so two cells never share one.

  Every operation takes the cell and the log of the values on which \<^verbatim>\<open>~type()\<close> has
  been invoked, and returns both. A constructor takes the memory \<open>m\<close> the cell is built
  in: a member that the constructor does not initialise keeps what \<open>m\<close> holds there.
\<close>

record 'a storage =
  buf :: 'a
  flag :: bool

definition raw :: "'a storage \<Rightarrow> 'a" where
  "raw s = buf s"

definition destruct :: "'a storage \<Rightarrow> 'a list \<Rightarrow> 'a storage \<times> 'a list" where
  "destruct s dl = (if flag s then (s\<lparr>flag := False\<rparr>, dl @ [raw s]) else (s, dl))"

definition construct :: "'a \<Rightarrow> 'a storage \<Rightarrow> 'a list \<Rightarrow> 'a storage \<times> 'a list" where
  "construct a s dl =
     (case destruct s dl of (s', dl') \<Rightarrow> (s'\<lparr>buf := a, flag := True\<rparr>, dl'))"

definition assign :: "'a \<Rightarrow> 'a storage \<Rightarrow> 'a list \<Rightarrow> 'a storage \<times> 'a list" where
  "assign a s dl = (case destruct s dl of (s', dl') \<Rightarrow> (s'\<lparr>buf := a\<rparr>, dl'))"

text \<open>\<^verbatim>\<open>void operator=(type const& a) { assign(a); }\<close>\<close>

definition operator_assign :: "'a \<Rightarrow> 'a storage \<Rightarrow> 'a list \<Rightarrow> 'a storage \<times> 'a list" where
  "operator_assign a s dl = assign a s dl"

text \<open>
  The copy assignment \<^verbatim>\<open>storage& operator=(storage const&)\<close> that the class gets
  implicitly: the declared \<^verbatim>\<open>operator=\<close> takes a \<^verbatim>\<open>type const&\<close>, so it is not a copy
  assignment operator, and no move operation is declared. It copies the members \<^verbatim>\<open>buf\<close>
  and \<^verbatim>\<open>flag\<close> of the source \<open>a\<close> into the cell and calls nothing else.
\<close>

definition implicit_copy_assign ::
  "'a storage \<Rightarrow> 'a storage \<Rightarrow> 'a list \<Rightarrow> 'a storage \<times> 'a list" where
  "implicit_copy_assign a s dl = (s\<lparr>buf := buf a, flag := flag a\<rparr>, dl)"

text \<open>\<^verbatim>\<open>storage(std::nullptr_t) : flag{false} {}\<close>\<close>

definition storage_nullptr :: "'a storage \<Rightarrow> 'a list \<Rightarrow> 'a storage \<times> 'a list" where
  "storage_nullptr m dl = (m\<lparr>flag := False\<rparr>, dl)"

text \<open>\<^verbatim>\<open>storage(self const& a) { assign(*a.raw()); }\<close>\<close>

definition storage_copy :: "'a storage \<Rightarrow> 'a storage \<Rightarrow> 'a list \<Rightarrow> 'a storage \<times> 'a list" where
  "storage_copy a m dl = assign (raw a) m dl"

text \<open>\<^verbatim>\<open>storage(type const& a) { assign(a); }\<close>\<close>

definition storage_value :: "'a \<Rightarrow> 'a storage \<Rightarrow> 'a list \<Rightarrow> 'a storage \<times> 'a list" where
  "storage_value a m dl = assign a m dl"

text \<open>
  \<^verbatim>\<open>storage(constructor_tag, Args&&... a) { construct(std::forward<Args>(a)...); }\<close>,
  with \<open>a\<close> the value that \<^verbatim>\<open>type(args...)\<close> builds.
\<close>

definition storage_constructor :: "'a \<Rightarrow> 'a storage \<Rightarrow> 'a list \<Rightarrow> 'a storage \<times> 'a list" where
  "storage_constructor a m dl = construct a m dl"

text \<open>\<^verbatim>\<open>~storage() { destruct(); }\<close>\<close>

definition storage_dtor :: "'a storage \<Rightarrow> 'a list \<Rightarrow> 'a storage \<times> 'a list" where
  "storage_dtor s dl = destruct s dl"

section \<open>Errors and fallible results\<close>

text \<open>
  Errors live on the heap: \<^verbatim>\<open>new\<close> appends the object to the heap and returns its
  index, and a \<^verbatim>\<open>std::unique_ptr\<close> is \<open>Some\<close> address or \<open>None\<close> when it is null.
\<close>

type_synonym 'e heap = "'e list"

type_synonym unique_ptr = "nat option"

text \<open>
  \<^verbatim>\<open>jni_error\<close>: the message of \<^verbatim>\<open>basic_error\<close>, read by \<^verbatim>\<open>get_message()\<close>, and
  the \<^verbatim>\<open>JNIEnv*\<close> it was raised with.
\<close>

record jni_error =
  error_env :: nat
  get_message :: string

text \<open>
  \<^verbatim>\<open>unexpected<Error>\<close> holds \<^verbatim>\<open>std::unique_ptr<error> e\<close>; its constructor allocates
  \<^verbatim>\<open>new Error{ args... }\<close>, and \<^verbatim>\<open>move_error()\<close> returns \<^verbatim>\<open>std::move(e)\<close>, which
  leaves \<^verbatim>\<open>e\<close> null.
\<close>

record unexpected =
  unexpected_e :: unique_ptr

definition unexpected_ctor :: "'e \<Rightarrow> 'e heap \<Rightarrow> unexpected \<times> 'e heap" where
  "unexpected_ctor err h = (\<lparr>unexpected_e = Some (length h)\<rparr>, h @ [err])"

definition move_error :: "unexpected \<Rightarrow> unique_ptr \<times> unexpected" where
  "move_error u = (unexpected_e u, u\<lparr>unexpected_e := None\<rparr>)"

text \<open>\<^verbatim>\<open>raise<Error>(args...)\<close> returns \<^verbatim>\<open>unexpected<Error>{ args... }\<close>.\<close>

definition raise :: "'e \<Rightarrow> 'e heap \<Rightarrow> unexpected \<times> 'e heap" where
  "raise err h = unexpected_ctor err h"

text \<open>\<^verbatim>\<open>jni_raise(env, args...)\<close> returns \<^verbatim>\<open>ornew::raise<jni_error>(env, args...)\<close>.\<close>

definition jni_raise :: "nat \<Rightarrow> string \<Rightarrow> jni_error heap \<Rightarrow> unexpected \<times> jni_error heap" where
  "jni_raise envp msg h = raise \<lparr>error_env = envp, get_message = msg\<rparr> h"

text \<open>
  \<^verbatim>\<open>expected<Result, Error>\<close> has the members \<^verbatim>\<open>std::unique_ptr<error> e\<close> and
  \<^verbatim>\<open>storage<result> r\<close>. Each constructor takes the memory \<open>m\<close> of the member \<^verbatim>\<open>r\<close>
  and the destructor log of \<^verbatim>\<open>result\<close>.
\<close>

record 'r expected =
  expected_e :: unique_ptr
  expected_r :: "'r storage"

text \<open>\<^verbatim>\<open>expected() : r{ nullptr } {}\<close>\<close>

definition expected_default :: "'r storage \<Rightarrow> 'r list \<Rightarrow> 'r expected \<times> 'r list" where
  "expected_default m dl =
     (case storage_nullptr m dl of (r', dl') \<Rightarrow> (\<lparr>expected_e = None, expected_r = r'\<rparr>, dl'))"

text \<open>\<^verbatim>\<open>expected(result a) : r{ a } {}\<close>: the member is built by \<^verbatim>\<open>storage(type const&)\<close>.\<close>

definition expected_value :: "'r \<Rightarrow> 'r storage \<Rightarrow> 'r list \<Rightarrow> 'r expected \<times> 'r list" where
  "expected_value a m dl =
     (case storage_value a m dl of (r', dl') \<Rightarrow> (\<lparr>expected_e = None, expected_r = r'\<rparr>, dl'))"

text \<open>
  \<^verbatim>\<open>expected(unexpected<error>&& e) : r{ nullptr } { this->e = std::move(e.move_error()); }\<close>.
  The builder is returned as the call leaves it.
\<close>

definition expected_unexpected ::
  "unexpected \<Rightarrow> 'r storage \<Rightarrow> 'r list \<Rightarrow> 'r expected \<times> unexpected \<times> 'r list" where
  "expected_unexpected u m dl =
     (case storage_nullptr m dl of
        (r', dl') \<Rightarrow>
          (case move_error u of
             (p, u') \<Rightarrow> (\<lparr>expected_e = p, expected_r = r'\<rparr>, u', dl')))"

text \<open>
  The move constructor that the class gets implicitly, member by member: the
  \<^verbatim>\<open>unique_ptr\<close> is moved, which leaves the source's null; \<^verbatim>\<open>storage\<close> declares a copy
  constructor and no move constructor, so \<^verbatim>\<open>r\<close> is built by \<^verbatim>\<open>storage(self const&)\<close>.
  The source is returned as the move leaves it.
\<close>

definition expected_move ::
  "'r expected \<Rightarrow> 'r storage \<Rightarrow> 'r list \<Rightarrow> 'r expected \<times> 'r expected \<times> 'r list" where
  "expected_move src m dl =
     (case storage_copy (expected_r src) m dl of
        (r', dl') \<Rightarrow>
          (\<lparr>expected_e = expected_e src, expected_r = r'\<rparr>, src\<lparr>expected_e := None\<rparr>, dl'))"

text \<open>
  The three states of a result, in the words of the specification: default (no value, no
  error), success (storage occupied, error null), failure (storage empty, error owned).
\<close>

definition default_state :: "'r expected \<Rightarrow> bool" where
  "default_state x = (expected_e x = None \<and> \<not> flag (expected_r x))"

definition success_state :: "'r expected \<Rightarrow> bool" where
  "success_state x = (expected_e x = None \<and> flag (expected_r x))"

definition failure_state :: "'r expected \<Rightarrow> bool" where
  "failure_state x = (expected_e x \<noteq> None \<and> \<not> flag (expected_r x))"

text \<open>How many of the given owning pointers hold the address \<open>p\<close>.\<close>

definition owners :: "nat \<Rightarrow> unique_ptr list \<Rightarrow> nat" where
  "owners p ptrs = length (filter (\<lambda>q. q = Some p) ptrs)"

section \<open>The runtime binding layer\<close>

text \<open>
  The runtime's function table behind a \<^verbatim>\<open>JNIEnv*\<close>. Handles (\<^verbatim>\<open>jclass\<close>,
  \<^verbatim>\<open>jmethodID\<close>) are addresses, \<open>NULL\<close> the null one.
\<close>

definition NULL :: nat where
  "NULL = 0"

record JNIEnv =
  FindClass :: "string \<Rightarrow> nat"
  GetMethodID :: "nat \<Rightarrow> string \<Rightarrow> char list \<Rightarrow> nat"

text \<open>
  \<^verbatim>\<open>environment\<close> holds \<^verbatim>\<open>JNIEnv* env\<close>, returned by \<^verbatim>\<open>attach()\<close>. A handle's
  back-reference \<^verbatim>\<open>environment*\<close> is modelled by the environment it points to.
\<close>

record environment =
  env :: nat

definition attach :: "environment \<Rightarrow> nat" where
  "attach e = env e"

record clas =
  clas_env :: environment
  clas_c :: nat

text \<open>
  \<^verbatim>\<open>method<R>\<close>, a \<^verbatim>\<open>method_id\<close> (\<^verbatim>\<open>env\<close>, \<^verbatim>\<open>cls\<close>, \<^verbatim>\<open>id\<close>) specialised by the return
  type \<^verbatim>\<open>R\<close>.
\<close>

record method_id =
  method_env :: environment
  method_cls :: nat
  method_id_id :: nat
  method_return :: jtype

text \<open>
  \<^verbatim>\<open>environment::find_class\<close>, with \<open>jni\<close> the table that \<^verbatim>\<open>env\<close> points to, \<open>m\<close> the
  memory of the returned result's storage, \<open>h\<close> the heap of errors and \<open>dl\<close> the
  destructor log of \<^verbatim>\<open>clas\<close>.
\<close>

definition find_class ::
  "JNIEnv \<Rightarrow> environment \<Rightarrow> string \<Rightarrow> clas storage \<Rightarrow> jni_error heap \<Rightarrow> clas list
   \<Rightarrow> clas expected \<times> jni_error heap \<times> clas list" where
  "find_class jni e name m h dl =
     (let c = FindClass jni name in
      if c = NULL then
        (case jni_raise (env e) (''Not found: '' @ name @ '' in env::find_class function.'') h of
           (u, h') \<Rightarrow>
             (case expected_unexpected u m dl of (x, u', dl') \<Rightarrow> (x, h', dl')))
      else
        (case expected_value \<lparr>clas_env = e, clas_c = c\<rparr> m dl of (x, dl') \<Rightarrow> (x, h, dl')))"

text \<open>
  The nested name \<^verbatim>\<open>type::return_type\<close> that \<^verbatim>\<open>clas::get_method\<close> looks up in its
  template parameter \<^verbatim>\<open>type = jnipp::type<Signature>\<close>, which is what
  \<^verbatim>\<open>resolver<Signature>::type\<close> names: a scalar or a function type. None of these
  types has members (\<^verbatim>\<open>struct defined {}\<close> is empty); \<^verbatim>\<open>return_type\<close> is a member of
  \<^verbatim>\<open>struct resolver<Return(Args...)>\<close> itself.
\<close>

fun member_return_type :: "jtype \<Rightarrow> jtype option" where
  "member_return_type _ = None"

text \<open>
  The body of \<^verbatim>\<open>clas::get_method\<close>, given what its template parameters name: the
  return type \<open>rt\<close> (\<^verbatim>\<open>type::return_type\<close>) and the descriptor \<open>d\<close>
  (\<^verbatim>\<open>mangle<type>\<close>, passed as \<^verbatim>\<open>mangle<type>::str\<close>).
\<close>

definition get_method_body ::
  "JNIEnv \<Rightarrow> clas \<Rightarrow> jtype \<Rightarrow> pack \<Rightarrow> string \<Rightarrow> method_id storage \<Rightarrow> jni_error heap
   \<Rightarrow> method_id list \<Rightarrow> method_id expected \<times> jni_error heap \<times> method_id list" where
  "get_method_body jni cls rt d name m h dl =
     (let i = GetMethodID jni (clas_c cls) name (str d) in
      if i = NULL then
        (case jni_raise (attach (clas_env cls))
                (''Not found: '' @ name @ '' in clas::get_method function.'') h of
           (u, h') \<Rightarrow>
             (case expected_unexpected u m dl of (x, u', dl') \<Rightarrow> (x, h', dl')))
      else
        (case expected_value
                \<lparr>method_env = clas_env cls, method_cls = clas_c cls,
                 method_id_id = i, method_return = rt\<rparr> m dl of
           (x, dl') \<Rightarrow> (x, h, dl')))"

text \<open>
  \<^verbatim>\<open>clas::get_method<Signature>\<close> with the default for its second template parameter,
  \<^verbatim>\<open>type = jnipp::type<Signature>\<close>. The result is \<open>None\<close> when the instantiation is
  ill-formed: \<^verbatim>\<open>jnipp::type<Signature>\<close>, \<^verbatim>\<open>type::return_type\<close> or \<^verbatim>\<open>mangle<type>\<close>
  names nothing.
\<close>

definition get_method ::
  "JNIEnv \<Rightarrow> clas \<Rightarrow> ntype \<Rightarrow> string \<Rightarrow> method_id storage \<Rightarrow> jni_error heap \<Rightarrow> method_id list
   \<Rightarrow> (method_id expected \<times> jni_error heap \<times> method_id list) option" where
  "get_method jni cls signature name m h dl =
     (case jnipp_type signature of
        None \<Rightarrow> None
      | Some ty \<Rightarrow>
          (case member_return_type ty of
             None \<Rightarrow> None
           | Some rt \<Rightarrow>
               (case mangle ty of
                  None \<Rightarrow> None
                | Some d \<Rightarrow> Some (get_method_body jni cls rt d name m h dl))))"

section \<open>Properties of the descriptor synthesizer\<close>

lemma pack_join_all_concat: "pack_join_all l r rest = concat (l # r # rest)"
  by (induction rest arbitrary: l r) (simp_all add: pack_join_def)

lemma join_of_concat: "join_of t = concat (packs_of t)"
  by (induction t) (simp_all add: pack_join_def)

lemma those_append:
  "those (xs @ ys) =
     (case those xs of
        None \<Rightarrow> None
      | Some as \<Rightarrow> (case those ys of None \<Rightarrow> None | Some bs \<Rightarrow> Some (as @ bs)))"
  by (induction xs) (auto split: option.splits)

lemma pack_join_all_inst_Some:
  "those ts = Some (l # r # rest) \<Longrightarrow> pack_join_all_inst ts = Some (concat (l # r # rest))"
  by (simp add: pack_join_all_inst_def pack_join_all_concat)

lemma pack_join_all_inst_None:
  "those ts = None \<Longrightarrow> pack_join_all_inst ts = None"
  by (simp add: pack_join_all_inst_def)

lemma those_signature:
  "those ([Some a] @ map mangler args @ [Some b, mangler r]) =
     (case those (map mangler args) of
        None \<Rightarrow> None
      | Some ds \<Rightarrow> (case mangler r of None \<Rightarrow> None | Some d \<Rightarrow> Some (a # ds @ [b, d])))"
  by (simp add: those_append split: option.splits)

text \<open>
  Claim C10. The join of character packs is associative, and every bracketing of a join
  of several packs gives the sequence that \<^verbatim>\<open>pack_join_all\<close> gives: a bracketing \<open>t\<close>
  of the packs \<open>l, r, rest...\<close> joins to \<open>pack_join_all l r rest\<close>, so two bracketings
  of the same packs join to the same sequence.
\<close>

theorem pack_join_bracketing:
  "pack_join (pack_join a b) c = pack_join a (pack_join b c)
   \<and> (packs_of t = l # r # rest \<longrightarrow> join_of t = pack_join_all l r rest)
   \<and> (packs_of s = packs_of t \<longrightarrow> join_of s = join_of t)"
  by (simp add: pack_join_def pack_join_all_concat join_of_concat)

theorem pack_join_bracketing_witness:
  "packs_of (Join (Leaf ''L'') (Join (Leaf ''java'') (Leaf '';''))) = [''L'', ''java'', '';'']
   \<and> packs_of (Join (Join (Leaf ''L'') (Leaf ''java'')) (Leaf '';''))
       = packs_of (Join (Leaf ''L'') (Join (Leaf ''java'') (Leaf '';'')))
   \<and> join_of (Join (Leaf ''L'') (Join (Leaf ''java'') (Leaf '';'')))
       = pack_join_all ''L'' ''java'' ['';'']
   \<and> join_of (Join (Join (Leaf ''L'') (Leaf ''java'')) (Leaf '';''))
       = join_of (Join (Leaf ''L'') (Join (Leaf ''java'') (Leaf '';'')))
   \<and> pack_join_all ''L'' ''java'' ['';''] = ''Ljava;''"
  using pack_join_bracketing
    [of "''L''" "''java''" "'';''" "Join (Leaf ''L'') (Join (Leaf ''java'') (Leaf '';''))"
        "''L''" "''java''" "['';'']" "Join (Join (Leaf ''L'') (Leaf ''java'')) (Leaf '';'')"]
  by (simp add: pack_join_def)

text \<open>
  Claim C9. A declared class type \<^verbatim>\<open>defined<L>\<close> has the descriptor
  \<open>L\<close> + \<^verbatim>\<open>L::name\<close> + \<open>;\<close>, and \<^verbatim>\<open>jstring\<close>, whose provider is named
  \<open>java/lang/String\<close>, has the descriptor \<open>Ljava/lang/String;\<close>.
\<close>

theorem mangler_defined:
  "mangler (Defined n) = Some (''L'' @ n @ '';'')
   \<and> mangler jstring = Some ''Ljava/lang/String;''"
  by (simp add: pack_join_all_inst_def pack_join_def jstring_def jstring_define_name_def)

text \<open>
  The descriptor of a function type \<^verbatim>\<open>R(A1, ..., An)\<close> exists exactly when the
  descriptors of all its argument types and of its return type exist, and then it is
  \<open>(\<close> + descriptor(A1) + ... + descriptor(An) + \<open>)\<close> + descriptor(R); with no argument
  it is \<open>()\<close> + descriptor(R).
\<close>

lemma mangler_signature:
  "mangler (JFun r args) =
     (case those (map mangler args) of
        None \<Rightarrow> None
      | Some ds \<Rightarrow>
          (case mangler r of
             None \<Rightarrow> None
           | Some d \<Rightarrow> Some (''('' @ concat ds @ '')'' @ d)))
   \<and> mangler (JFun r []) =
     (case mangler r of None \<Rightarrow> None | Some d \<Rightarrow> Some (''()'' @ d))"
proof -
  have gen: "mangler (JFun r xs) =
     (case those (map mangler xs) of
        None \<Rightarrow> None
      | Some ds \<Rightarrow>
          (case mangler r of
             None \<Rightarrow> None
           | Some d \<Rightarrow> Some (''('' @ concat ds @ '')'' @ d)))" for xs
  proof (cases "those (map mangler xs)")
    case None
    then show ?thesis
      by (simp add: pack_join_all_inst_None those_signature del: those.simps append.simps)
  next
    case (Some ds)
    show ?thesis
    proof (cases "mangler r")
      case None
      with Some show ?thesis
        using those_signature [of "''(''" xs "'')''" r]
        by (simp add: pack_join_all_inst_None)
    next
      case d: (Some d)
      have t: "those ([Some ''(''] @ map mangler xs @ [Some '')'', mangler r])
               = Some (''('' # ds @ ['')'', d])"
        using those_signature [of "''(''" xs "'')''" r] Some d by simp
      show ?thesis
      proof (cases ds)
        case Nil
        with t Some d show ?thesis
          using pack_join_all_inst_Some [of _ "''(''" "'')''" "[d]"] by simp
      next
        case (Cons d1 ds')
        with t Some d show ?thesis
          using pack_join_all_inst_Some [of _ "''(''" d1 "ds' @ ['')'', d]"] by simp
      qed
    qed
  qed
  show ?thesis using gen [of args] gen [of "[]"] by (simp split: option.splits)
qed

lemma mangler_signature_example:
  "mangler (JFun JInt [JBoolean, Pointer JByte, jstring]) = Some ''(Z[BLjava/lang/String;)I''
   \<and> mangler (JFun JDouble []) = Some ''()D''"
  using mangler_signature [of JInt "[JBoolean, Pointer JByte, jstring]"]
    mangler_signature [of JDouble "[]"]
  by (simp add: pack_join_all_inst_def pack_join_def jstring_def jstring_define_name_def)

lemma mangler_signature_Some:
  assumes "mangler r = Some d" and "map mangler args = map Some ds"
  shows "mangler (JFun r args) = Some (''('' @ concat ds @ '')'' @ d)"
proof -
  have "those (map mangler args) = Some ds"
    unfolding assms(2) by (induction ds) simp_all
  with assms(1) show ?thesis
    using mangler_signature [of r args] by simp
qed

text \<open>
  Claim C4. Where every argument type and the return type have a descriptor, the
  descriptor of the signature is the claimed concatenation (\<open>mangler_signature_Some\<close>).
  But \<^verbatim>\<open>mangler\<close> has no specialisation for \<^verbatim>\<open>void\<close>, so a signature that returns
  \<^verbatim>\<open>void\<close> has no descriptor at all, whatever its arguments: \<^verbatim>\<open>void()\<close>, which
  \<^verbatim>\<open>resolver\<close> does resolve, synthesizes to nothing where the claim says \<open>()\<close> followed by
  the descriptor of the return type.
\<close>

theorem mangler_void_signature:
  "mangler JVoid = None
   \<and> mangler (JFun JVoid []) = None
   \<and> mangler (JFun JVoid args) = None
   \<and> resolver (NFun NVoid []) = Some (JFun JVoid [])
   \<and> mangler (JFun JInt []) = Some ''()I''"
  using mangler_signature [of JVoid args] mangler_signature [of JInt "[]"]
  by (simp split: option.splits)

lemma mangler_primitives:
  "mangle JBoolean = Some ''Z''" "mangle JByte = Some ''B''" "mangle JChar = Some ''C''"
  "mangle JShort = Some ''S''" "mangle JInt = Some ''I''" "mangle JFloat = Some ''F''"
  "mangle JDouble = Some ''D''"
  by simp_all

text \<open>
  Claim C1. Seven of the eight primitive types have the reserved letter of the runtime's
  table (\<open>mangler_primitives\<close>). \<^verbatim>\<open>jlong\<close> does not: its specialisation names
  \<^verbatim>\<open>pack<'L'>\<close>, the letter that opens a class descriptor, where the table reserves
  \<open>J\<close>; \<^verbatim>\<open>mangle<jlong>::str\<close> is the array \<open>L\<close>, \<open>NUL\<close>.
\<close>

theorem mangler_jlong:
  "mangle JLong = Some ''L''
   \<and> mangle JLong \<noteq> Some ''J''
   \<and> map_option str (mangle JLong) = Some [CHR ''L'', CHR 0x00]"
  by (simp add: str_def)

section \<open>Properties of the type resolver\<close>

lemma resolver_scalars:
  "resolver NVoid = Some JVoid" "resolver NBool = Some JBoolean" "resolver NChar = Some JByte"
  "resolver NInt16 = Some JShort" "resolver NInt32 = Some JInt" "resolver NInt64 = Some JLong"
  "resolver NUnsignedChar = Some JChar"
  by simp_all

lemma those_map_Some: "those (map Some xs) = Some xs"
  by (induction xs) simp_all

lemma resolver_signature:
  "resolver r = Some jr \<Longrightarrow> map resolver args = map Some jargs
   \<Longrightarrow> resolver (NFun r args) = Some (JFun jr jargs)"
  by (simp add: those_map_Some)

text \<open>
  Claim C2. Six of the eight scalars resolve as the table says (\<open>resolver_scalars\<close>), and
  a function type resolves its return type and its argument types one by one
  (\<open>resolver_signature\<close>). \<^verbatim>\<open>float\<close> and \<^verbatim>\<open>double\<close> do not resolve: \<^verbatim>\<open>resolver\<close> has no
  specialisation for them, so neither they nor a signature that mentions them has a
  resolved type.
\<close>

theorem resolver_float_double:
  "resolver NFloat = None \<and> resolver NDouble = None
   \<and> resolver (NFun NFloat [NInt32]) = None \<and> resolver (NFun NVoid [NDouble]) = None"
  by simp

section \<open>Properties of the storage cell\<close>

text \<open>
  Claim C7. \<^verbatim>\<open>destruct()\<close> on an unoccupied cell changes nothing; on an occupied cell it
  invokes the destructor once, on the held value, and marks the cell unoccupied; a second
  \<^verbatim>\<open>destruct()\<close> changes nothing. So after \<^verbatim>\<open>construct(a)\<close> the calls \<^verbatim>\<open>destruct()\<close>
  and the cell's teardown, or the teardown alone, invoke the destructor of \<open>a\<close> exactly
  once.
\<close>

theorem destruct_once:
  "(\<not> flag s \<longrightarrow> destruct s dl = (s, dl))
   \<and> (flag s \<longrightarrow> destruct s dl = (s\<lparr>flag := False\<rparr>, dl @ [raw s]))
   \<and> (case destruct s dl of (s', dl') \<Rightarrow> \<not> flag s' \<and> destruct s' dl' = (s', dl'))
   \<and> (case construct a s dl of
        (s1, dl1) \<Rightarrow>
          flag s1 \<and> raw s1 = a \<and>
          (case destruct s1 dl1 of
             (s2, dl2) \<Rightarrow>
               \<not> flag s2 \<and> dl2 = dl1 @ [a] \<and>
               (case storage_dtor s2 dl2 of (s3, dl3) \<Rightarrow> \<not> flag s3 \<and> dl3 = dl1 @ [a])))
   \<and> (case construct a s dl of
        (s1, dl1) \<Rightarrow> (case storage_dtor s1 dl1 of (s3, dl3) \<Rightarrow> \<not> flag s3 \<and> dl3 = dl1 @ [a]))"
  by (simp add: destruct_def construct_def storage_dtor_def raw_def)

theorem destruct_once_witness:
  "\<not> flag \<lparr>buf = 3::nat, flag = False\<rparr>
   \<and> destruct \<lparr>buf = 3::nat, flag = False\<rparr> [] = (\<lparr>buf = 3, flag = False\<rparr>, [])
   \<and> flag \<lparr>buf = 3::nat, flag = True\<rparr>
   \<and> destruct \<lparr>buf = 3::nat, flag = True\<rparr> [] = (\<lparr>buf = 3, flag = False\<rparr>, [3])"
  using destruct_once [of "\<lparr>buf = 3::nat, flag = False\<rparr>" "[]"]
        destruct_once [of "\<lparr>buf = 3::nat, flag = True\<rparr>" "[]"]
  by (simp add: raw_def)

text \<open>
  Claim C8, as amended. \<^verbatim>\<open>assign\<close> (and the declared \<^verbatim>\<open>operator=\<close>, which is
  \<^verbatim>\<open>assign\<close>) calls \<^verbatim>\<open>destruct()\<close>, so it invokes the destructor on the held value
  exactly when the cell was occupied, and then writes the assigned value into the buffer
  with the flag false; a later \<^verbatim>\<open>destruct()\<close>, also the one of the teardown, invokes no
  destructor. Of the operations and constructors that the class declares, only
  \<^verbatim>\<open>construct\<close> and the constructor that calls it leave the flag true. The implicit
  copy assignment calls no destructor and leaves the cell with the buffer and the flag of
  its source, so it marks the cell occupied exactly when the source is.
\<close>

theorem assign_leaves_unoccupied:
  "assign a s dl = (s\<lparr>buf := a, flag := False\<rparr>, snd (destruct s dl))
   \<and> snd (assign a s dl) = (if flag s then dl @ [raw s] else dl)
   \<and> (case assign a s dl of
        (s1, dl1) \<Rightarrow> \<not> flag s1 \<and> raw s1 = a \<and> destruct s1 dl1 = (s1, dl1)
                     \<and> storage_dtor s1 dl1 = (s1, dl1))
   \<and> operator_assign a s dl = assign a s dl
   \<and> flag (fst (construct a s dl))
   \<and> flag (fst (storage_constructor a s dl))
   \<and> \<not> flag (fst (destruct s dl))
   \<and> \<not> flag (fst (storage_dtor s dl))
   \<and> \<not> flag (fst (storage_nullptr s dl))
   \<and> \<not> flag (fst (storage_value a s dl))
   \<and> \<not> flag (fst (storage_copy c s dl))
   \<and> flag (fst (implicit_copy_assign c s dl)) = flag c
   \<and> raw (fst (implicit_copy_assign c s dl)) = raw c
   \<and> snd (implicit_copy_assign c s dl) = dl"
  by (cases "flag s")
     (simp_all add: assign_def destruct_def construct_def storage_dtor_def raw_def
        operator_assign_def storage_nullptr_def storage_value_def storage_copy_def
        storage_constructor_def implicit_copy_assign_def)

theorem assign_leaves_unoccupied_witness:
  "assign (4::nat) \<lparr>buf = 9, flag = True\<rparr> [1] = (\<lparr>buf = 4, flag = False\<rparr>, [1, 9])
   \<and> assign (4::nat) \<lparr>buf = 9, flag = False\<rparr> [1] = (\<lparr>buf = 4, flag = False\<rparr>, [1])
   \<and> storage_dtor \<lparr>buf = 4::nat, flag = False\<rparr> [1, 9] = (\<lparr>buf = 4, flag = False\<rparr>, [1, 9])
   \<and> fst (construct (4::nat) \<lparr>buf = 9, flag = False\<rparr> [1]) = \<lparr>buf = 4, flag = True\<rparr>"
  using assign_leaves_unoccupied [of 4 "\<lparr>buf = 9::nat, flag = True\<rparr>" "[1]"]
        assign_leaves_unoccupied [of 4 "\<lparr>buf = 9::nat, flag = False\<rparr>" "[1]"]
  by (simp add: destruct_def storage_dtor_def construct_def raw_def)

text \<open>
  Claim C8 as stated fails: a cell built empty is marked occupied by the implicit copy
  assignment from an occupied cell, without any call of \<^verbatim>\<open>construct()\<close> on it.
\<close>

theorem implicit_copy_assign_counterexample:
  "\<not> flag (fst (storage_nullptr \<lparr>buf = 0::nat, flag = False\<rparr> []))
   \<and> flag (fst (implicit_copy_assign
                  (fst (storage_constructor (7::nat) \<lparr>buf = 0, flag = False\<rparr> []))
                  (fst (storage_nullptr \<lparr>buf = 0::nat, flag = False\<rparr> [])) []))
   \<and> implicit_copy_assign
        (fst (storage_constructor (7::nat) \<lparr>buf = 0, flag = False\<rparr> []))
        (fst (storage_nullptr \<lparr>buf = 0::nat, flag = False\<rparr> [])) []
      = (\<lparr>buf = 7, flag = True\<rparr>, [])"
  by (simp add: implicit_copy_assign_def storage_nullptr_def storage_constructor_def
      construct_def destruct_def)

text \<open>
  Claim C3. The copy of an occupied cell has the source's value in its buffer, but it is
  not marked occupied: the copy constructor goes through \<^verbatim>\<open>assign\<close>, which never sets
  the flag, so the copy's teardown leaves the copied value undestroyed. The constructor
  does not initialise the flag before \<^verbatim>\<open>destruct()\<close> reads it: in memory whose flag
  byte reads true, the copy constructor invokes the destructor on what the memory held.
\<close>

theorem storage_copy_unoccupied:
  "(case storage_constructor v m dl of
      (src, dl1) \<Rightarrow>
        flag src \<and> raw src = v \<and>
        (case storage_copy src m' dl1 of
           (cp, dl2) \<Rightarrow>
             raw cp = v \<and> \<not> flag cp \<and> storage_dtor cp dl2 = (cp, dl2)))
   \<and> snd (storage_copy src \<lparr>buf = g, flag = True\<rparr> dl) = dl @ [g]"
  by (simp add: assign_def destruct_def construct_def storage_dtor_def raw_def
      storage_copy_def storage_constructor_def)

section \<open>Properties of the fallible result\<close>

text \<open>
  Claim C5. A builder made by \<^verbatim>\<open>raise\<close> owns one freshly allocated error, and
  converting it gives a result in the failure state that owns that error. Converting any
  builder that holds its error at \<open>p\<close> gives the failure state (not success, not default)
  owning \<open>p\<close>, and leaves the builder without it: of the two, exactly one owns \<open>p\<close>.
  Moving a failure that owns \<open>p\<close> gives a failure that owns \<open>p\<close> and leaves the source
  in the default state: again exactly one of the two owns \<open>p\<close>.
\<close>

theorem expected_failure_ownership:
  "(case raise err h of
      (u, h') \<Rightarrow>
        unexpected_e u = Some (length h) \<and> length h < length h' \<and> h' ! length h = err \<and>
        (case expected_unexpected u m dl of
           (x, u', dl') \<Rightarrow>
             failure_state x \<and> expected_e x = Some (length h) \<and> unexpected_e u' = None))
   \<and> (unexpected_e u = Some p \<longrightarrow>
        (case expected_unexpected u m dl of
           (x, u', dl') \<Rightarrow>
             failure_state x \<and> \<not> success_state x \<and> \<not> default_state x \<and>
             expected_e x = Some p \<and> unexpected_e u' = None \<and>
             owners p [expected_e x, unexpected_e u'] = 1 \<and> dl' = dl))
   \<and> (failure_state src \<and> expected_e src = Some p \<longrightarrow>
        (case expected_move src m dl of
           (dst, src', dl') \<Rightarrow>
             failure_state dst \<and> expected_e dst = Some p \<and> default_state src' \<and>
             owners p [expected_e dst, expected_e src'] = 1))"
  by (simp add: raise_def unexpected_ctor_def expected_unexpected_def move_error_def
      storage_nullptr_def failure_state_def success_state_def default_state_def owners_def
      expected_move_def storage_copy_def assign_def destruct_def)

theorem expected_failure_ownership_witness:
  "unexpected_e \<lparr>unexpected_e = Some 0\<rparr> = Some 0
   \<and> expected_unexpected \<lparr>unexpected_e = Some 0\<rparr> \<lparr>buf = 5::nat, flag = True\<rparr> []
       = (\<lparr>expected_e = Some 0, expected_r = \<lparr>buf = 5, flag = False\<rparr>\<rparr>,
          \<lparr>unexpected_e = None\<rparr>, [])
   \<and> failure_state \<lparr>expected_e = Some 0, expected_r = \<lparr>buf = 5::nat, flag = False\<rparr>\<rparr>
   \<and> fst (expected_move \<lparr>expected_e = Some 0, expected_r = \<lparr>buf = 5::nat, flag = False\<rparr>\<rparr>
             \<lparr>buf = 8, flag = False\<rparr> [])
       = \<lparr>expected_e = Some 0, expected_r = \<lparr>buf = 5, flag = False\<rparr>\<rparr>
   \<and> default_state (fst (snd (expected_move
         \<lparr>expected_e = Some 0, expected_r = \<lparr>buf = 5::nat, flag = False\<rparr>\<rparr>
         \<lparr>buf = 8, flag = False\<rparr> [])))"
  using expected_failure_ownership
    [where u = "\<lparr>unexpected_e = Some 0\<rparr>" and p = 0 and m = "\<lparr>buf = 5::nat, flag = True\<rparr>"
       and dl = "[]"
       and src = "\<lparr>expected_e = Some 0, expected_r = \<lparr>buf = 5::nat, flag = False\<rparr>\<rparr>"]
    expected_failure_ownership
    [where u = "\<lparr>unexpected_e = Some 0\<rparr>" and p = 0 and m = "\<lparr>buf = 8::nat, flag = False\<rparr>"
       and dl = "[]"
       and src = "\<lparr>expected_e = Some 0, expected_r = \<lparr>buf = 5::nat, flag = False\<rparr>\<rparr>"]
  by (simp add: expected_unexpected_def move_error_def storage_nullptr_def failure_state_def
      default_state_def expected_move_def storage_copy_def assign_def destruct_def raw_def)

section \<open>Properties of the runtime binding layer\<close>

lemma find_class_not_found:
  assumes "FindClass jni name = NULL"
  shows "case find_class jni e name m h dl of
      (x, h', dl') \<Rightarrow>
        failure_state x \<and> expected_e x = Some (length h) \<and> length h < length h' \<and>
        get_message (h' ! length h) = ''Not found: '' @ name @ '' in env::find_class function.'' \<and>
        sublist name (get_message (h' ! length h)) \<and>
        error_env (h' ! length h) = env e"
proof -
  have sub: "sublist name (''Not found: '' @ name @ '' in env::find_class function.'')"
    by (rule sublist_appendI)
  have run: "find_class jni e name m h dl =
      (\<lparr>expected_e = Some (length h), expected_r = m\<lparr>flag := False\<rparr>\<rparr>,
       h @ [\<lparr>error_env = env e,
              get_message = ''Not found: '' @ name @ '' in env::find_class function.''\<rparr>],
       dl)"
    using assms
    by (simp add: find_class_def jni_raise_def raise_def unexpected_ctor_def
        expected_unexpected_def move_error_def storage_nullptr_def)
  show ?thesis
    unfolding run using sub by (simp add: failure_state_def del: append.simps)
qed

lemma get_method_body_not_found:
  assumes "GetMethodID jni (clas_c cls) name (str d) = NULL"
  shows "case get_method_body jni cls rt d name m h dl of
      (x, h', dl') \<Rightarrow>
        failure_state x \<and> expected_e x = Some (length h) \<and> length h < length h' \<and>
        sublist name (get_message (h' ! length h))"
proof -
  have sub: "sublist name (''Not found: '' @ name @ '' in clas::get_method function.'')"
    by (rule sublist_appendI)
  have run: "get_method_body jni cls rt d name m h dl =
      (\<lparr>expected_e = Some (length h), expected_r = m\<lparr>flag := False\<rparr>\<rparr>,
       h @ [\<lparr>error_env = env (clas_env cls),
              get_message = ''Not found: '' @ name @ '' in clas::get_method function.''\<rparr>],
       dl)"
    using assms
    by (simp add: get_method_body_def jni_raise_def raise_def unexpected_ctor_def
        expected_unexpected_def move_error_def storage_nullptr_def attach_def)
  show ?thesis
    unfolding run using sub by (simp add: failure_state_def del: append.simps)
qed

lemma get_method_ill_formed: "get_method jni cls signature name m h dl = None"
  by (simp add: get_method_def split: option.splits)

text \<open>
  Claim C6. When the runtime finds no class, \<^verbatim>\<open>find_class\<close> returns a failure whose
  message contains the name (\<open>find_class_not_found\<close>). When the runtime returns a class
  handle, the result has no error and the wrapped class in its buffer, but its storage
  is not marked occupied: it is in the default state, not in the success state. And
  \<^verbatim>\<open>get_method\<close> has no well-formed instantiation, whatever the signature: it returns
  neither a failure nor a success.
\<close>

theorem find_class_found:
  "(case find_class (jni\<lparr>FindClass := \<lambda>n. Suc k\<rparr>) e name m h dl of
      (x, h', dl') \<Rightarrow>
        expected_e x = None \<and> raw (expected_r x) = \<lparr>clas_env = e, clas_c = Suc k\<rparr> \<and>
        \<not> flag (expected_r x) \<and> default_state x \<and> \<not> success_state x \<and> h' = h)
   \<and> get_method jni cls signature name' m' h dl' = None"
  by (simp add: find_class_def NULL_def expected_value_def storage_value_def assign_def
      destruct_def raw_def default_state_def success_state_def get_method_ill_formed)

end
